theory Spec2Isabelle
  imports Complex_Main
begin

section \<open>Numbers\<close>

text \<open>
  The functions of \<^verbatim>\<open>src/utils/globe.ts\<close> compute on JavaScript numbers, which are IEEE 754
  binary64 values. A finite number is modelled as the real it denotes. Whether the loops of
  the longitude normalizer end depends on how \<^verbatim>\<open>newLon += 360\<close> and \<^verbatim>\<open>newLon -= 360\<close> are
  rounded, so each of these two steps is the exact sum rounded to binary64. The colour
  mapper and the segmenter are modelled with the exact arithmetic of the reals.
\<close>

subsection \<open>Rounding to binary64\<close>

text \<open>The number of binary digits of a positive integer.\<close>

function bitlen :: "int \<Rightarrow> int" where
  "bitlen n = (if n \<le> 0 then 0 else 1 + bitlen (n div 2))"
  by pat_completeness auto
termination
  by (relation "measure nat") auto

declare bitlen.simps [simp del]

text \<open>
  The binary exponent of a real \<open>x \<noteq> 0\<close>: the integer \<open>e\<close> with
  \<open>2\<^sup>e \<le> \<bar>x\<bar> < 2\<^sup>e\<^sup>+\<^sup>1\<close> (lemma \<open>exponent_bounds\<close>).
\<close>

definition exponent :: "real \<Rightarrow> int" where
  "exponent x =
     (if 1 \<le> \<bar>x\<bar> then bitlen \<lfloor>\<bar>x\<bar>\<rfloor> - 1
      else - bitlen (\<lceil>1 / \<bar>x\<bar>\<rceil> - 1))"

definition pow2 :: "int \<Rightarrow> real" where
  "pow2 k = (if 0 \<le> k then 2 ^ nat k else 1 / 2 ^ nat (- k))"

text \<open>The nearest integer, a tie going to the even one.\<close>

definition roundTiesToEven :: "real \<Rightarrow> int" where
  "roundTiesToEven y =
     (let n = \<lfloor>y\<rfloor>; d = y - of_int n
      in if d < 1 / 2 then n else if 1 / 2 < d then n + 1 else if even n then n else n + 1)"

text \<open>
  The binary64 value of an exact result \<open>x\<close>, in the default rounding mode: a significand
  of 53 binary digits, so the spacing of the values around \<open>x\<close> is \<open>2\<^sup>e\<^sup>-\<^sup>5\<^sup>2\<close>, and \<open>2\<^sup>-\<^sup>1\<^sup>0\<^sup>7\<^sup>4\<close>
  in the subnormal range. Overflow to \<^verbatim>\<open>Infinity\<close> is not modelled: a step of the normalizer
  never increases the magnitude beyond that of its operand or 180.
\<close>

definition binary64 :: "real \<Rightarrow> real" where
  "binary64 x =
     (if x = 0 then 0
      else let q = max (exponent x - 52) (- 1074)
           in of_int (roundTiesToEven (x / pow2 q)) * pow2 q)"

section \<open>Longitude normalizer\<close>

text \<open>
  \<^verbatim>\<open>
  export const normalizeLongitude = (lon: number): number => {
      let newLon = lon;
      while (newLon <= -180) newLon += 360;
      while (newLon > 180) newLon -= 360;
      return newLon;
  };
  \<close>
  Each \<^verbatim>\<open>while\<close> loop is a recursive function that may not return: \<open>None\<close> is the loop
  that never ends, \<open>Some v\<close> the value it leaves in \<^verbatim>\<open>newLon\<close>.
\<close>

partial_function (option) normalizeLongitude_up :: "real \<Rightarrow> real option" where
  "normalizeLongitude_up newLon =
     (if newLon \<le> -180 then normalizeLongitude_up (binary64 (newLon + 360))
      else Some newLon)"

partial_function (option) normalizeLongitude_down :: "real \<Rightarrow> real option" where
  "normalizeLongitude_down newLon =
     (if newLon > 180 then normalizeLongitude_down (binary64 (newLon - 360))
      else Some newLon)"

definition normalizeLongitude :: "real \<Rightarrow> real option" where
  "normalizeLongitude lon =
     (case normalizeLongitude_up lon of
        None \<Rightarrow> None
      | Some newLon \<Rightarrow> normalizeLongitude_down newLon)"

section \<open>Temporal colour mapper\<close>

text \<open>
  \<^verbatim>\<open>Math.round\<close> rounds to the nearest integer, a half towards plus infinity.
\<close>

definition Math_round :: "real \<Rightarrow> int" where
  "Math_round x = \<lfloor>x + 1 / 2\<rfloor>"

text \<open>
  The decimal text a template literal gives an integer-valued number (below \<open>10\<^sup>2\<^sup>1\<close> in
  absolute value, where JavaScript switches to exponent notation).
\<close>

fun digits :: "nat \<Rightarrow> string" where
  "digits n =
     (if n < 10 then [''0123456789'' ! n]
      else digits (n div 10) @ [''0123456789'' ! (n mod 10)])"

declare digits.simps [simp del]

definition String_of :: "int \<Rightarrow> string" where
  "String_of i = (if i < 0 then CHR ''-'' # digits (nat (- i)) else digits (nat i))"

text \<open>
  \<^verbatim>\<open>
  export const getEarthquakeColorByTime = (time: number, startDate: string, endDate: string): string => {
      const startTime = new Date(startDate).getTime();
      const endTime = new Date(endDate).getTime();
      if (endTime <= startTime) return 'rgba(239, 68, 68, 0.75)';

      const t = (time - startTime) / (endTime - startTime);
      const old_r = 220, old_g = 210, old_b = 215;
      const recent_r = 239, recent_g = 68, recent_b = 68;
      const r = Math.round(old_r + (recent_r - old_r) * t);
      const g = Math.round(old_g + (recent_g - old_g) * t);
      const b = Math.round(old_b + (recent_b - old_b) * t);
      return `rgba(${r}, ${g}, ${b}, 0.75)`;
  };
  \<close>
  The date parser of the JavaScript runtime is the parameter \<open>getTime\<close>: the epoch
  milliseconds of a date string, or \<open>None\<close> for an invalid date, whose \<^verbatim>\<open>getTime()\<close> is
  \<^verbatim>\<open>NaN\<close>. A comparison with \<^verbatim>\<open>NaN\<close> is false, so the guard does not fire, and every
  channel computed from it is \<^verbatim>\<open>NaN\<close> again.
\<close>

definition getEarthquakeColorByTime ::
  "(string \<Rightarrow> real option) \<Rightarrow> real \<Rightarrow> string \<Rightarrow> string \<Rightarrow> string" where
  "getEarthquakeColorByTime getTime time startDate endDate =
     (case (getTime startDate, getTime endDate) of
        (Some startTime, Some endTime) \<Rightarrow>
          if endTime \<le> startTime then ''rgba(239, 68, 68, 0.75)''
          else
            let t = (time - startTime) / (endTime - startTime);
                old_r = 220; old_g = 210; old_b = 215;
                recent_r = 239; recent_g = 68; recent_b = 68;
                r = Math_round (old_r + (recent_r - old_r) * t);
                g = Math_round (old_g + (recent_g - old_g) * t);
                b = Math_round (old_b + (recent_b - old_b) * t)
            in ''rgba('' @ String_of r @ '', '' @ String_of g @ '', '' @ String_of b @ '', 0.75)''
      | _ \<Rightarrow> ''rgba(NaN, NaN, NaN, 0.75)'')"

section \<open>Antimeridian segmenter\<close>

text \<open>
  A point is a coordinate array. A feature is an object with a \<^verbatim>\<open>geometry\<close>, which has
  the \<^verbatim>\<open>coordinates\<close>; the fields that the object spreads copy unchanged are kept in
  \<open>geometry_rest\<close> and \<open>feature_rest\<close>.
\<close>

type_synonym point = "real list"

record ('p, 'g) geometry =
  coordinates :: "'p list"
  geometry_rest :: 'g

record ('p, 'g, 'm) feature =
  geometry :: "('p, 'g) geometry"
  feature_rest :: 'm

text \<open>
  \<^verbatim>\<open>
  const [lon1] = prevPoint;
  const [lon2] = point;
  if (Math.abs(lon1 - lon2) > 180) {
  \<close>
  The first component of an empty array is \<^verbatim>\<open>undefined\<close>; the difference is then
  \<^verbatim>\<open>NaN\<close> and the comparison false.
\<close>

fun crossing :: "point \<Rightarrow> point \<Rightarrow> bool" where
  "crossing (lon1 # _) (lon2 # _) = (\<bar>lon1 - lon2\<bar> > 180)"
| "crossing _ _ = False"

text \<open>
  \<^verbatim>\<open>{ ...feature, geometry: { ...feature.geometry, coordinates: currentSegment } }\<close>
\<close>

definition segmentFeature ::
  "(point, 'g, 'm) feature \<Rightarrow> point list \<Rightarrow> (point, 'g, 'm) feature" where
  "segmentFeature feature currentSegment =
     feature\<lparr>geometry := (geometry feature)\<lparr>coordinates := currentSegment\<rparr>\<rparr>"

text \<open>
  The callback of \<^verbatim>\<open>coordinates.forEach((point, index) => ...)\<close>, on the state
  \<open>(currentSegment, finalFeatures)\<close>:
  \<^verbatim>\<open>
  if (index === 0) {
      currentSegment.push(point);
      return;
  }
  const prevPoint = coordinates[index - 1];
  ...
  if (Math.abs(lon1 - lon2) > 180) {
      if (currentSegment.length > 1) {
          finalFeatures.push({ ...feature, geometry: { ...feature.geometry, coordinates: currentSegment } });
      }
      currentSegment = [point];
  } else {
      currentSegment.push(point);
  }
  \<close>
  The index read \<open>coordinates ! (index - 1)\<close> is in range: \<open>forEach\<close> calls with
  \<open>index < length coordinates\<close>, and here \<open>0 < index\<close>. A pushed segment is not written
  again: \<open>currentSegment\<close> is rebound to a new array right after the push.
\<close>

fun forEach_point ::
  "(point, 'g, 'm) feature \<Rightarrow> point list \<Rightarrow>
   point list \<times> (point, 'g, 'm) feature list \<Rightarrow> point \<times> nat \<Rightarrow>
   point list \<times> (point, 'g, 'm) feature list" where
  "forEach_point feature coords (currentSegment, finalFeatures) (point, index) =
     (if index = 0 then (currentSegment @ [point], finalFeatures)
      else
        let prevPoint = coords ! (index - 1) in
        if crossing prevPoint point then
          ([point],
           if length currentSegment > 1
           then finalFeatures @ [segmentFeature feature currentSegment]
           else finalFeatures)
        else (currentSegment @ [point], finalFeatures))"

text \<open>
  The body of \<^verbatim>\<open>features.forEach(feature => ...)\<close>: the walk over the coordinates, then
  \<^verbatim>\<open>
  if (currentSegment.length > 1) {
      finalFeatures.push({ ...feature, geometry: { ...feature.geometry, coordinates: currentSegment } });
  }
  \<close>
\<close>

definition forEach_feature ::
  "(point, 'g, 'm) feature list \<Rightarrow> (point, 'g, 'm) feature \<Rightarrow> (point, 'g, 'm) feature list" where
  "forEach_feature finalFeatures feature =
     (let coords = coordinates (geometry feature);
          (currentSegment, finalFeatures') =
            foldl (forEach_point feature coords) ([], finalFeatures)
              (zip coords [0..<length coords])
      in if length currentSegment > 1
         then finalFeatures' @ [segmentFeature feature currentSegment]
         else finalFeatures')"

definition processPlatesData :: "(point, 'g, 'm) feature list \<Rightarrow> (point, 'g, 'm) feature list" where
  "processPlatesData features = foldl forEach_feature [] features"

section \<open>The plate-data pipeline\<close>

text \<open>
  From \<^verbatim>\<open>loadData\<close> in the \<^verbatim>\<open>useData\<close> hook:
  \<^verbatim>\<open>
  const normalizedFeatures = platesJson.features.map((feature: any) => ({
      ...feature,
      geometry: {
          ...feature.geometry,
          coordinates: feature.geometry.coordinates.map((coords: [number, number]) => {
              const lon = normalizeLongitude(coords[0]);
              const lat = coords[1];
              return [lat, lon];
          }),
      },
  }));
  const finalPlatesData = processPlatesData(normalizedFeatures);
  \<close>
  A raw point is the pair \<open>(coords[0], coords[1])\<close> of its type annotation. A call of
  \<^verbatim>\<open>normalizeLongitude\<close> that does not return keeps the map, and \<^verbatim>\<open>loadData\<close> with it, from
  going on: the result is then \<open>None\<close>.
\<close>

definition normalizedFeatures ::
  "(real \<times> real, 'g, 'm) feature list \<Rightarrow> (point, 'g, 'm) feature list option" where
  "normalizedFeatures features =
     those (map (\<lambda>feature.
        case those (map (\<lambda>coords.
                case normalizeLongitude (fst coords) of
                  None \<Rightarrow> None
                | Some lon \<Rightarrow> let lat = snd coords in Some [lat, lon])
              (coordinates (geometry feature))) of
          None \<Rightarrow> None
        | Some cs \<Rightarrow>
            Some \<lparr>geometry =
                     \<lparr>coordinates = cs, geometry_rest = geometry_rest (geometry feature)\<rparr>,
                  feature_rest = feature_rest feature\<rparr>) features)"

definition finalPlatesData ::
  "(real \<times> real, 'g, 'm) feature list \<Rightarrow> (point, 'g, 'm) feature list option" where
  "finalPlatesData features =
     (case normalizedFeatures features of
        None \<Rightarrow> None
      | Some normalized \<Rightarrow> Some (processPlatesData normalized))"

section \<open>Auxiliary definitions\<close>

text \<open>
  A point sequence has no crossings when no two consecutive points are a crossing by the
  segmenter's own test.
\<close>

fun noCrossings :: "point list \<Rightarrow> bool" where
  "noCrossings (p # q # ps) = (\<not> crossing p q \<and> noCrossings (q # ps))"
| "noCrossings _ = True"

text \<open>
  The walk over the points after the first one, as a recursion that carries the previous
  point along instead of reading it by index. It is a device of the proofs:
  \<open>forEach_feature_walk\<close> below shows that the loop of the source computes it.
\<close>

fun walk ::
  "(point, 'g, 'm) feature \<Rightarrow> point \<Rightarrow> point list \<Rightarrow>
   point list \<times> (point, 'g, 'm) feature list \<Rightarrow> point list \<times> (point, 'g, 'm) feature list" where
  "walk feature prevPoint [] st = st"
| "walk feature prevPoint (point # rest) (currentSegment, finalFeatures) =
     walk feature point rest
       (if crossing prevPoint point then
          ([point],
           if length currentSegment > 1
           then finalFeatures @ [segmentFeature feature currentSegment]
           else finalFeatures)
        else (currentSegment @ [point], finalFeatures))"

text \<open>Example inputs: a feature with no other fields, and a table of two dates with the
  epoch milliseconds of their UTC midnights.\<close>

definition feature_of :: "'p list \<Rightarrow> ('p, unit, unit) feature" where
  "feature_of cs = \<lparr>geometry = \<lparr>coordinates = cs, geometry_rest = ()\<rparr>, feature_rest = ()\<rparr>"

definition calendar :: "string \<Rightarrow> real option" where
  "calendar s =
     (if s = ''2024-01-01'' then Some 1704067200000
      else if s = ''2024-01-10'' then Some 1704844800000
      else None)"

section \<open>Rounding to binary64: properties\<close>

lemmas binary64_eval =
  binary64_def exponent_def pow2_def roundTiesToEven_def bitlen.simps Let_def

lemma bitlen_pos: "0 \<le> bitlen n"
proof (induction n rule: bitlen.induct)
  case (1 n)
  then show ?case
    by (subst bitlen.simps) simp
qed

lemma bitlen_bounds: "0 < n \<Longrightarrow> 2 ^ nat (bitlen n - 1) \<le> n \<and> n < 2 ^ nat (bitlen n)"
proof (induction n rule: bitlen.induct)
  case (1 n)
  show ?case
  proof (cases "n = 1")
    case True
    have "bitlen 1 = 1"
      by (simp add: bitlen.simps)
    then show ?thesis
      using True by simp
  next
    case False
    then have half: "0 < n div 2"
      using "1.prems" by simp
    have IH: "2 ^ nat (bitlen (n div 2) - 1) \<le> n div 2 \<and> n div 2 < 2 ^ nat (bitlen (n div 2))"
      using "1.IH" "1.prems" half by simp
    have unfold: "bitlen n = 1 + bitlen (n div 2)"
      using "1.prems" by (subst bitlen.simps) simp
    have b1: "1 \<le> bitlen (n div 2)"
      using half by (subst bitlen.simps) (simp add: bitlen_pos)
    have p1: "(2::int) ^ nat (bitlen n - 1) = 2 * 2 ^ nat (bitlen (n div 2) - 1)"
      using b1 unfolding unfold
      by (metis add_diff_cancel_left' diff_add_cancel nat_add_distrib bitlen_pos power_Suc
          Suc_nat_eq_nat_zadd1 add.commute diff_ge_0_iff_ge zero_le_one)
    have p2: "(2::int) ^ nat (bitlen n) = 2 * 2 ^ nat (bitlen (n div 2))"
      unfolding unfold using bitlen_pos [of "n div 2"]
      by (metis Suc_nat_eq_nat_zadd1 add.commute power_Suc)
    show ?thesis
      unfolding p1 p2 using IH by linarith
  qed
qed

lemma pow2_nonneg: "0 \<le> k \<Longrightarrow> pow2 k = 2 ^ nat k"
  by (simp add: pow2_def)

lemma pow2_neg: "k \<le> 0 \<Longrightarrow> pow2 k = 1 / 2 ^ nat (- k)"
  by (simp add: pow2_def)

lemma pow2_pos: "0 < pow2 k"
  by (simp add: pow2_def)

text \<open>The exponent is the one of the binade of \<open>x\<close>.\<close>

lemma exponent_bounds:
  assumes "x \<noteq> 0"
  shows "pow2 (exponent x) \<le> \<bar>x\<bar> \<and> \<bar>x\<bar> < pow2 (exponent x + 1)"
proof (cases "1 \<le> \<bar>x\<bar>")
  case True
  define n where "n = \<lfloor>\<bar>x\<bar>\<rfloor>"
  have n: "0 < n"
    using True by (simp add: n_def)
  have e: "exponent x = bitlen n - 1"
    using True by (simp add: exponent_def n_def)
  have b: "1 \<le> bitlen n"
    using n by (subst bitlen.simps) (simp add: bitlen_pos)
  have bounds: "2 ^ nat (bitlen n - 1) \<le> n" "n < 2 ^ nat (bitlen n)"
    using bitlen_bounds [OF n] by simp_all
  have "real_of_int (2 ^ nat (bitlen n - 1)) \<le> real_of_int n"
    using bounds(1) by (rule of_int_le_iff [THEN iffD2])
  also have "\<dots> \<le> \<bar>x\<bar>"
    by (simp add: n_def)
  finally have lo: "pow2 (exponent x) \<le> \<bar>x\<bar>"
    using b by (simp add: e pow2_nonneg)
  have "n + 1 \<le> 2 ^ nat (bitlen n)"
    using bounds(2) by simp
  then have "real_of_int (n + 1) \<le> real_of_int (2 ^ nat (bitlen n))"
    by (rule of_int_le_iff [THEN iffD2])
  moreover have "\<bar>x\<bar> < real_of_int (n + 1)"
    unfolding n_def by linarith
  ultimately have hi: "\<bar>x\<bar> < pow2 (exponent x + 1)"
    using b by (simp add: e pow2_nonneg)
  show ?thesis
    using lo hi by simp
next
  case False
  define y where "y = 1 / \<bar>x\<bar>"
  define m where "m = \<lceil>y\<rceil> - 1"
  have xpos: "0 < \<bar>x\<bar>"
    using assms by simp
  have y1: "1 < y"
    using False xpos by (simp add: y_def)
  have m: "0 < m"
    using y1 unfolding m_def by linarith
  have my: "real_of_int m < y" "y \<le> real_of_int (m + 1)"
    unfolding m_def by linarith+
  have e: "exponent x = - bitlen m"
    using False by (simp add: exponent_def m_def y_def)
  have b: "1 \<le> bitlen m"
    using m by (subst bitlen.simps) (simp add: bitlen_pos)
  have bounds: "2 ^ nat (bitlen m - 1) \<le> m" "m < 2 ^ nat (bitlen m)"
    using bitlen_bounds [OF m] by simp_all
  have "m + 1 \<le> 2 ^ nat (bitlen m)"
    using bounds(2) by simp
  then have "real_of_int (m + 1) \<le> real_of_int (2 ^ nat (bitlen m))"
    by (rule of_int_le_iff [THEN iffD2])
  then have "y \<le> 2 ^ nat (bitlen m)"
    using my(2) by simp
  then have "1 / 2 ^ nat (bitlen m) \<le> \<bar>x\<bar>"
    using xpos unfolding y_def by (simp add: field_simps)
  then have lo: "pow2 (exponent x) \<le> \<bar>x\<bar>"
    using b by (simp add: e pow2_neg)
  have "(2::real) ^ nat (bitlen m - 1) \<le> real_of_int m"
    using bounds(1) of_int_le_iff [where ?'a = real, of "2 ^ nat (bitlen m - 1)" m] by simp
  then have "2 ^ nat (bitlen m - 1) < y"
    using my(1) by linarith
  then have "\<bar>x\<bar> < 1 / 2 ^ nat (bitlen m - 1)"
    using xpos unfolding y_def by (simp add: field_simps)
  then have hi: "\<bar>x\<bar> < pow2 (exponent x + 1)"
    using b by (simp add: e pow2_neg)
  show ?thesis
    using lo hi by simp
qed

lemma roundTiesToEven_near: "\<bar>real_of_int (roundTiesToEven y) - y\<bar> \<le> 1 / 2"
  unfolding roundTiesToEven_def Let_def by (simp; linarith)

text \<open>The rounded value is within half a spacing of the exact one.\<close>

lemma binary64_near:
  "\<bar>binary64 x - x\<bar> \<le> pow2 (max (exponent x - 52) (- 1074)) / 2"
proof (cases "x = 0")
  case True
  then show ?thesis
    using pow2_pos [of "max (exponent 0 - 52) (- 1074)"] by (simp add: binary64_def)
next
  case False
  define q where "q = max (exponent x - 52) (- 1074)"
  have pos: "0 < pow2 q"
    by (rule pow2_pos)
  have "\<bar>real_of_int (roundTiesToEven (x / pow2 q)) - x / pow2 q\<bar> * pow2 q \<le> 1 / 2 * pow2 q"
    using roundTiesToEven_near [of "x / pow2 q"] pos by (intro mult_right_mono) simp_all
  moreover have "\<bar>real_of_int (roundTiesToEven (x / pow2 q)) - x / pow2 q\<bar> * pow2 q
      = \<bar>(real_of_int (roundTiesToEven (x / pow2 q)) - x / pow2 q) * pow2 q\<bar>"
    using pos by (simp add: abs_mult)
  moreover have "(real_of_int (roundTiesToEven (x / pow2 q)) - x / pow2 q) * pow2 q
      = real_of_int (roundTiesToEven (x / pow2 q)) * pow2 q - x"
    using pos by (simp add: field_simps)
  ultimately show ?thesis
    using False by (simp add: binary64_def q_def Let_def)
qed

text \<open>
  Known values: the doubles of \<open>0.1\<close> and \<open>1/3\<close>, and ties at \<open>2\<^sup>5\<^sup>3\<close> going to the even
  significand.
\<close>

lemma binary64_examples:
  "binary64 (1 / 10) = 3602879701896397 / 2 ^ 55"
  "binary64 (1 / 3) = 6004799503160661 / 2 ^ 54"
  "binary64 (9007199254740992 + 1) = 9007199254740992"
  "binary64 (9007199254740992 + 3) = 9007199254740996"
  "binary64 180 = 180"
  by (simp_all add: binary64_eval)

section \<open>Longitude normalizer: properties\<close>

text \<open>
  At \<open>10\<^sup>1\<^sup>9\<close> the values of binary64 are 2048 apart, so the step by 360 is rounded away.
\<close>

lemma binary64_absorbs_360:
  "binary64 (10000000000000000000 - 360) = 10000000000000000000"
  "binary64 (- 10000000000000000000 + 360) = - 10000000000000000000"
  by (simp_all add: binary64_eval)

lemma normalizeLongitude_down_stuck:
  assumes "normalizeLongitude_down x = Some y"
  shows "x \<noteq> 10000000000000000000"
proof (rule normalizeLongitude_down.raw_induct
    [where P = "\<lambda>x y. x \<noteq> 10000000000000000000", OF _ assms])
  fix f :: "real \<Rightarrow> real option" and newLon y :: real
  assume IH: "\<And>newLon y. f newLon = Some y \<Longrightarrow> newLon \<noteq> 10000000000000000000"
  assume step: "(if 180 < newLon then f (binary64 (newLon - 360)) else Some newLon) = Some y"
  show "newLon \<noteq> 10000000000000000000"
  proof
    assume x: "newLon = 10000000000000000000"
    have "f 10000000000000000000 = Some y"
      using step unfolding x binary64_absorbs_360 by simp
    then show False
      using IH by blast
  qed
qed

lemma normalizeLongitude_up_stuck:
  assumes "normalizeLongitude_up x = Some y"
  shows "x \<noteq> - 10000000000000000000"
proof (rule normalizeLongitude_up.raw_induct
    [where P = "\<lambda>x y. x \<noteq> - 10000000000000000000", OF _ assms])
  fix f :: "real \<Rightarrow> real option" and newLon y :: real
  assume IH: "\<And>newLon y. f newLon = Some y \<Longrightarrow> newLon \<noteq> - 10000000000000000000"
  assume step: "(if newLon \<le> - 180 then f (binary64 (newLon + 360)) else Some newLon) = Some y"
  show "newLon \<noteq> - 10000000000000000000"
  proof
    assume x: "newLon = - 10000000000000000000"
    have "f (- 10000000000000000000) = Some y"
      using step unfolding x binary64_absorbs_360 by simp
    then show False
      using IH by blast
  qed
qed

text \<open>
  C1. The claim fails on the code. The number \<open>10\<^sup>1\<^sup>9\<close> (\<^verbatim>\<open>1e19\<close>) is a finite binary64
  value, and \<^verbatim>\<open>normalizeLongitude(1e19)\<close> never returns: \<^verbatim>\<open>1e19 - 360\<close> is \<^verbatim>\<open>1e19\<close> again,
  so the second loop does not leave its first state. The first loop does the same at
  \<^verbatim>\<open>-1e19\<close>.
\<close>

theorem normalizeLongitude_never_returns:
  "binary64 10000000000000000000 = 10000000000000000000
   \<and> normalizeLongitude 10000000000000000000 = None
   \<and> normalizeLongitude (- 10000000000000000000) = None"
proof -
  have dbl: "binary64 10000000000000000000 = 10000000000000000000"
    by (simp add: binary64_eval)
  have up: "normalizeLongitude_up 10000000000000000000 = Some 10000000000000000000"
    by (subst normalizeLongitude_up.simps) simp
  have down: "normalizeLongitude_down 10000000000000000000 = None"
    using normalizeLongitude_down_stuck [of 10000000000000000000]
    by (cases "normalizeLongitude_down 10000000000000000000") auto
  have up': "normalizeLongitude_up (- 10000000000000000000) = None"
    using normalizeLongitude_up_stuck [of "- 10000000000000000000"]
    by (cases "normalizeLongitude_up (- 10000000000000000000)") auto
  show ?thesis
    by (simp add: normalizeLongitude_def dbl up down up')
qed

text \<open>
  C8. The boundary values: \<open>-180\<close> is shifted up to \<open>180\<close>, \<open>180\<close> stays, \<open>540\<close> comes
  down to \<open>180\<close>, and \<open>0\<close> stays; on each of the four the function returns.
\<close>

theorem normalizeLongitude_boundaries:
  "normalizeLongitude (-180) = Some 180 \<and> normalizeLongitude 180 = Some 180 \<and>
   normalizeLongitude 540 = Some 180 \<and> normalizeLongitude 0 = Some 0"
  by (simp add: normalizeLongitude_def normalizeLongitude_up.simps
      normalizeLongitude_down.simps binary64_eval)

section \<open>Temporal colour mapper: properties\<close>

lemma String_of_anchors:
  "String_of 220 = ''220''" "String_of 210 = ''210''" "String_of 215 = ''215''"
  "String_of 239 = ''239''" "String_of 68 = ''68''"
  "String_of 230 = ''230''" "String_of 139 = ''139''" "String_of 142 = ''142''"
  by (simp_all add: String_of_def digits.simps)

text \<open>
  C5. When both dates parse and the end of the window is not after its start, the colour
  is the string \<open>rgba(239, 68, 68, 0.75)\<close>, whatever the event time. The function is
  total and has no error branch.
\<close>

theorem getEarthquakeColorByTime_degenerate:
  assumes "getTime startDate = Some startTime" and "getTime endDate = Some endTime"
    and "endTime \<le> startTime"
  shows "getEarthquakeColorByTime getTime time startDate endDate = ''rgba(239, 68, 68, 0.75)''"
  using assms by (simp add: getEarthquakeColorByTime_def)

theorem getEarthquakeColorByTime_degenerate_witness:
  "calendar ''2024-01-10'' = Some 1704844800000 \<and>
   calendar ''2024-01-01'' = Some 1704067200000 \<and>
   (1704067200000::real) \<le> 1704844800000 \<and>
   getEarthquakeColorByTime calendar 1704500000000 ''2024-01-10'' ''2024-01-01''
     = ''rgba(239, 68, 68, 0.75)''"
proof -
  have s: "calendar ''2024-01-10'' = Some 1704844800000"
    by (simp add: calendar_def)
  have e: "calendar ''2024-01-01'' = Some 1704067200000"
    by (simp add: calendar_def)
  have le: "(1704067200000::real) \<le> 1704844800000"
    by simp
  show ?thesis
    using s e le
      getEarthquakeColorByTime_degenerate
        [of calendar "''2024-01-10''" 1704844800000 "''2024-01-01''" 1704067200000
          1704500000000]
    by simp
qed

text \<open>
  C7. For a window whose start is strictly before its end, an event at the start of the
  window gets \<open>rgba(220, 210, 215, 0.75)\<close> and an event at its end gets
  \<open>rgba(239, 68, 68, 0.75)\<close>.
\<close>

theorem getEarthquakeColorByTime_endpoints:
  assumes "getTime startDate = Some startTime" and "getTime endDate = Some endTime"
    and "startTime < endTime"
  shows "getEarthquakeColorByTime getTime startTime startDate endDate
           = ''rgba(220, 210, 215, 0.75)''
       \<and> getEarthquakeColorByTime getTime endTime startDate endDate
           = ''rgba(239, 68, 68, 0.75)''"
proof -
  have t1: "(endTime - startTime) / (endTime - startTime) = 1"
    using assms(3) by simp
  show ?thesis
    using assms
    by (simp add: getEarthquakeColorByTime_def t1 Math_round_def String_of_anchors)
qed

theorem getEarthquakeColorByTime_endpoints_witness:
  "calendar ''2024-01-01'' = Some 1704067200000 \<and>
   calendar ''2024-01-10'' = Some 1704844800000 \<and>
   (1704067200000::real) < 1704844800000 \<and>
   getEarthquakeColorByTime calendar 1704067200000 ''2024-01-01'' ''2024-01-10''
     = ''rgba(220, 210, 215, 0.75)'' \<and>
   getEarthquakeColorByTime calendar 1704844800000 ''2024-01-01'' ''2024-01-10''
     = ''rgba(239, 68, 68, 0.75)''"
proof -
  have s: "calendar ''2024-01-01'' = Some 1704067200000"
    by (simp add: calendar_def)
  have e: "calendar ''2024-01-10'' = Some 1704844800000"
    by (simp add: calendar_def)
  have lt: "(1704067200000::real) < 1704844800000"
    by simp
  show ?thesis
    using s e lt
      getEarthquakeColorByTime_endpoints
        [of calendar "''2024-01-01''" 1704067200000 "''2024-01-10''" 1704844800000]
    by simp
qed

text \<open>
  C9. For a window whose start is strictly before its end, an event exactly at the
  midpoint of the window (\<open>t = 1 / 2\<close>) gets \<open>rgba(230, 139, 142, 0.75)\<close>: the channels
  are \<open>229.5\<close>, \<open>139\<close> and \<open>141.5\<close> before rounding, and a half rounds up.
\<close>

theorem getEarthquakeColorByTime_midpoint:
  assumes "getTime startDate = Some startTime" and "getTime endDate = Some endTime"
    and "startTime < endTime"
  shows "getEarthquakeColorByTime getTime ((startTime + endTime) / 2) startDate endDate
           = ''rgba(230, 139, 142, 0.75)''"
proof -
  have t: "((startTime + endTime) / 2 - startTime) / (endTime - startTime) = 1 / 2"
    using assms(3) by (simp add: field_simps)
  have r: "Math_round (220 + (239 - 220) * (1 / 2)) = 230"
    and g: "Math_round (210 + (68 - 210) * (1 / 2)) = 139"
    and b: "Math_round (215 + (68 - 215) * (1 / 2)) = 142"
    by (simp_all add: Math_round_def)
  have guard: "\<not> endTime \<le> startTime"
    using assms(3) by simp
  show ?thesis
    unfolding getEarthquakeColorByTime_def assms(1) assms(2) prod.case option.case Let_def t r g b
    using guard by (simp add: String_of_anchors)
qed

theorem getEarthquakeColorByTime_midpoint_witness:
  "calendar ''2024-01-01'' = Some 1704067200000 \<and>
   calendar ''2024-01-10'' = Some 1704844800000 \<and>
   (1704067200000::real) < 1704844800000 \<and>
   getEarthquakeColorByTime calendar 1704456000000 ''2024-01-01'' ''2024-01-10''
     = ''rgba(230, 139, 142, 0.75)''"
proof -
  have s: "calendar ''2024-01-01'' = Some 1704067200000"
    by (simp add: calendar_def)
  have e: "calendar ''2024-01-10'' = Some 1704844800000"
    by (simp add: calendar_def)
  have lt: "(1704067200000::real) < 1704844800000"
    by simp
  show ?thesis
    using s e lt
      getEarthquakeColorByTime_midpoint
        [of calendar "''2024-01-01''" 1704067200000 "''2024-01-10''" 1704844800000]
    by simp
qed

section \<open>Antimeridian segmenter: the loop as a recursion\<close>

lemma upt_shift: "[i..<i + Suc n] = i # [Suc i..<Suc i + n]"
proof -
  have "[i..<i + Suc n] = i # [Suc i..<i + Suc n]"
    by (rule upt_conv_Cons) simp
  then show ?thesis
    by (simp only: add_Suc_right add_Suc)
qed

lemma foldl_forEach_point_walk:
  "0 < i \<Longrightarrow> drop i cs = ps \<Longrightarrow>
   foldl (forEach_point f cs) st (zip ps [i..<i + length ps]) = walk f (cs ! (i - 1)) ps st"
proof (induction ps arbitrary: i st)
  case Nil
  then show ?case by simp
next
  case (Cons p ps)
  obtain cur out where st: "st = (cur, out)"
    by (cases st)
  have len: "i < length cs"
    using Cons.prems(2) by (metis drop_all list.distinct(1) not_le)
  have p: "cs ! i = p"
    using Cons.prems(2) len by (metis nth_via_drop)
  have rest: "drop (Suc i) cs = ps"
    using Cons.prems(2) by (metis drop_Suc tl_drop list.sel(3))
  have upt: "[i..<i + length (p # ps)] = i # [Suc i..<Suc i + length ps]"
    using upt_shift [of i "length ps"]
    by (simp only: list.size(4) One_nat_def add_Suc_right add_0_right)
  have "foldl (forEach_point f cs) st (zip (p # ps) [i..<i + length (p # ps)])
        = foldl (forEach_point f cs) (forEach_point f cs st (p, i))
            (zip ps [Suc i..<Suc i + length ps])"
    unfolding upt by simp
  also have "\<dots> = walk f (cs ! (Suc i - 1)) ps (forEach_point f cs st (p, i))"
    using Cons.IH [of "Suc i"] rest by simp
  also have "\<dots> = walk f (cs ! (i - 1)) (p # ps) st"
    using Cons.prems(1) p by (simp add: st Let_def)
  finally show ?case .
qed

lemma forEach_feature_walk:
  "forEach_feature finalFeatures feature =
     (case (case coordinates (geometry feature) of
              [] \<Rightarrow> ([], finalFeatures)
            | p # ps \<Rightarrow> walk feature p ps ([p], finalFeatures)) of
        (currentSegment, finalFeatures') \<Rightarrow>
          if length currentSegment > 1
          then finalFeatures' @ [segmentFeature feature currentSegment]
          else finalFeatures')"
proof (cases "coordinates (geometry feature)")
  case Nil
  then show ?thesis
    by (simp add: forEach_feature_def)
next
  case (Cons p ps)
  have upt: "[0..<length (p # ps)] = 0 # [Suc 0..<Suc 0 + length ps]"
    using upt_shift [of 0 "length ps"]
    by (simp only: list.size(4) One_nat_def add_Suc_right add_0_right add_0)
  have "foldl (forEach_point feature (p # ps)) ([], finalFeatures)
          (zip (p # ps) [0..<length (p # ps)])
        = foldl (forEach_point feature (p # ps)) ([p], finalFeatures)
            (zip ps [Suc 0..<Suc 0 + length ps])"
    unfolding upt by simp
  also have "\<dots> = walk feature p ps ([p], finalFeatures)"
    using foldl_forEach_point_walk [of "Suc 0" "p # ps" ps feature "([p], finalFeatures)"]
    by simp
  finally show ?thesis
    by (simp add: forEach_feature_def Cons Let_def)
qed

section \<open>Antimeridian segmenter: emitted segments have two points or more\<close>

lemma walk_long:
  "\<forall>g\<in>set out. 2 \<le> length (coordinates (geometry g)) \<Longrightarrow>
   \<forall>g\<in>set (snd (walk f prev ps (cur, out))). 2 \<le> length (coordinates (geometry g))"
proof (induction ps arbitrary: prev cur out)
  case Nil
  then show ?case by simp
next
  case (Cons p ps)
  show ?case
  proof (cases "crossing prev p")
    case True
    have "\<forall>g\<in>set (if length cur > 1 then out @ [segmentFeature f cur] else out).
            2 \<le> length (coordinates (geometry g))"
      using Cons.prems by (auto simp: segmentFeature_def)
    then show ?thesis
      using True Cons.IH by simp
  next
    case False
    then show ?thesis
      using Cons.IH [OF Cons.prems] by simp
  qed
qed

lemma forEach_feature_long:
  assumes "\<forall>g\<in>set out. 2 \<le> length (coordinates (geometry g))"
  shows "\<forall>g\<in>set (forEach_feature out f). 2 \<le> length (coordinates (geometry g))"
proof (cases "coordinates (geometry f)")
  case Nil
  then show ?thesis
    using assms by (simp add: forEach_feature_walk)
next
  case (Cons p ps)
  obtain cur out' where w: "walk f p ps ([p], out) = (cur, out')"
    by (cases "walk f p ps ([p], out)")
  have "\<forall>g\<in>set out'. 2 \<le> length (coordinates (geometry g))"
    using walk_long [OF assms, of f p ps "[p]"] w by simp
  then show ?thesis
    by (auto simp: forEach_feature_walk Cons w segmentFeature_def)
qed

lemma foldl_forEach_feature_long:
  "\<forall>g\<in>set out. 2 \<le> length (coordinates (geometry g)) \<Longrightarrow>
   \<forall>g\<in>set (foldl forEach_feature out fs). 2 \<le> length (coordinates (geometry g))"
proof (induction fs arbitrary: out)
  case Nil
  then show ?case by simp
next
  case (Cons f fs)
  show ?case
    using Cons.IH [OF forEach_feature_long [OF Cons.prems]] by simp
qed

text \<open>
  C2. Whatever the list of input features, every feature that \<open>processPlatesData\<close> emits
  has at least two points in its coordinate sequence.
\<close>

theorem processPlatesData_long:
  "g \<in> set (processPlatesData features) \<Longrightarrow> 2 \<le> length (coordinates (geometry g))"
  using foldl_forEach_feature_long [of "[]" features]
  by (simp add: processPlatesData_def)

theorem processPlatesData_long_witness:
  "feature_of [[170, 0], [175, 1]]
     \<in> set (processPlatesData
         [feature_of [[170, 0], [175, 1], [-170, 0], [-160, 0], [20, 0]], feature_of [[1, 1]]])
   \<and> 2 \<le> length (coordinates (geometry (feature_of [[170, 0], [175, 1 :: real]])))"
proof -
  have mem: "feature_of [[170, 0], [175, 1]]
     \<in> set (processPlatesData
         [feature_of [[170, 0], [175, 1], [-170, 0], [-160, 0], [20, 0]], feature_of [[1, 1]]])"
    by (simp add: processPlatesData_def forEach_feature_def feature_of_def segmentFeature_def)
  show ?thesis
    using mem processPlatesData_long [OF mem] by simp
qed

section \<open>Antimeridian segmenter: no crossing inside an emitted segment\<close>



lemma not_crossing_iff:
  "\<not> crossing (lon1 # rest1) (lon2 # rest2) \<longleftrightarrow> \<bar>lon1 - lon2\<bar> \<le> 180"
  by auto






section \<open>Antimeridian segmenter: a feature with no crossings\<close>

lemma walk_no_crossing:
  "noCrossings (prev # ps) \<Longrightarrow> walk f prev ps (cur, out) = (cur @ ps, out)"
  by (induction ps arbitrary: prev cur) simp_all

lemma segmentFeature_same: "segmentFeature f (coordinates (geometry f)) = f"
  by (simp add: segmentFeature_def)

text \<open>
  C6, as the claim states it, fails on a feature of one point: it has no crossings, and
  the segmenter emits nothing for it, because a segment is pushed only when it has more
  than one point.
\<close>

theorem processPlatesData_single_point_counterexample:
  "noCrossings (coordinates (geometry (feature_of [[0, 0]])))
   \<and> processPlatesData [feature_of [[0, 0]]] = []"
  by (simp add: processPlatesData_def forEach_feature_def feature_of_def segmentFeature_def)

text \<open>
  C6, amended. For every feature with at least two points and no crossings, the segmenter
  emits exactly one segment, and it is the input feature: the same points in the same
  order, with the other fields unchanged.
\<close>

theorem processPlatesData_no_crossings:
  assumes "noCrossings (coordinates (geometry feature))"
    and "2 \<le> length (coordinates (geometry feature))"
  shows "processPlatesData [feature] = [feature]"
proof (cases "coordinates (geometry feature)")
  case Nil
  then show ?thesis
    using assms(2) by simp
next
  case (Cons p ps)
  have "walk feature p ps ([p], []) = (p # ps, [])"
    using walk_no_crossing [of p ps feature "[p]" "[]"] assms(1) Cons by simp
  moreover have "segmentFeature feature (p # ps) = feature"
    using segmentFeature_same [of feature] Cons by simp
  moreover have "ps \<noteq> []"
    using assms(2) Cons by auto
  ultimately show ?thesis
    using Cons by (simp add: processPlatesData_def forEach_feature_walk)
qed

theorem processPlatesData_no_crossings_witness:
  "noCrossings (coordinates (geometry (feature_of [[10, 0], [100, 5], [-80, 5]])))
   \<and> 2 \<le> length (coordinates (geometry (feature_of [[10, 0], [100, 5], [-80, 5 :: real]])))
   \<and> processPlatesData [feature_of [[10, 0], [100, 5], [-80, 5]]]
       = [feature_of [[10, 0], [100, 5], [-80, 5]]]"
proof -
  have nc: "noCrossings (coordinates (geometry (feature_of [[10, 0], [100, 5], [-80, 5]])))"
    by (simp add: feature_of_def)
  have len: "2 \<le> length (coordinates (geometry (feature_of [[10, 0], [100, 5], [-80, 5 :: real]])))"
    by (simp add: feature_of_def)
  show ?thesis
    using nc len processPlatesData_no_crossings [OF nc len] by simp
qed

section \<open>Antimeridian segmenter: the two examples\<close>

text \<open>
  C4. The feature of the two points \<open>(179, 0)\<close>, \<open>(-179, 0)\<close> gives no segment. The feature
  of the three points \<open>(170, 0)\<close>, \<open>(-170, 0)\<close>, \<open>(-160, 0)\<close> gives exactly one segment, with
  the points \<open>(-170, 0)\<close>, \<open>(-160, 0)\<close>. The other fields \<open>g\<close> and \<open>m\<close> of the feature are
  arbitrary.
\<close>

theorem processPlatesData_examples:
  "processPlatesData
     [\<lparr>geometry = \<lparr>coordinates = [[179, 0], [-179, 0]], geometry_rest = g\<rparr>,
       feature_rest = m\<rparr>] = []
   \<and> processPlatesData
     [\<lparr>geometry = \<lparr>coordinates = [[170, 0], [-170, 0], [-160, 0]], geometry_rest = g\<rparr>,
       feature_rest = m\<rparr>]
     = [\<lparr>geometry = \<lparr>coordinates = [[-170, 0], [-160, 0]], geometry_rest = g\<rparr>,
         feature_rest = m\<rparr>]"
  by (simp add: processPlatesData_def forEach_feature_def segmentFeature_def)

section \<open>The plate-data pipeline: which component the segmenter compares\<close>

text \<open>
  C3. The pipeline does not hand the segmenter points with the longitude first. A raw
  feature of the two points \<open>[179, 10]\<close> and \<open>[-179, 10]\<close> (longitude, latitude) reaches the
  segmenter as \<open>[10, 179]\<close>, \<open>[10, -179]\<close> (latitude, normalized longitude). The
  segmenter compares the latitudes, \<open>\<bar>10 - 10\<bar> = 0\<close>, and emits the two points as one
  segment, although the longitudes are 358 apart; on the same two points with the longitude
  first it emits nothing.
\<close>

theorem finalPlatesData_compares_latitudes:
  "normalizedFeatures
     [\<lparr>geometry = \<lparr>coordinates = [(179, 10), (-179, 10)], geometry_rest = g\<rparr>,
       feature_rest = m\<rparr>]
     = Some [\<lparr>geometry = \<lparr>coordinates = [[10, 179], [10, -179]], geometry_rest = g\<rparr>,
         feature_rest = m\<rparr>]
   \<and> finalPlatesData
     [\<lparr>geometry = \<lparr>coordinates = [(179, 10), (-179, 10)], geometry_rest = g\<rparr>,
       feature_rest = m\<rparr>]
     = Some [\<lparr>geometry = \<lparr>coordinates = [[10, 179], [10, -179]], geometry_rest = g\<rparr>,
         feature_rest = m\<rparr>]
   \<and> processPlatesData
     [\<lparr>geometry = \<lparr>coordinates = [[179, 10], [-179, 10]], geometry_rest = g\<rparr>,
       feature_rest = m\<rparr>] = []"
proof -
  have lon: "normalizeLongitude 179 = Some 179" "normalizeLongitude (- 179) = Some (- 179)"
    by (simp_all add: normalizeLongitude_def normalizeLongitude_up.simps
        normalizeLongitude_down.simps)
  show ?thesis
    by (simp add: finalPlatesData_def normalizedFeatures_def lon
        processPlatesData_def forEach_feature_def segmentFeature_def)
qed

end
